theory Spec2Isabelle
  imports Complex_Main "HOL-Library.Sublist"
begin

section \<open>Data model (shared/schema.ts)\<close>

text \<open>
  The tables of the booking platform, one record per row type.  Only the columns that the
  storage layer reads or writes in the modelled operations are kept; columns filled by
  database defaults that no operation inspects (\<open>createdAt\<close>, the row id of
  \<open>booked_seats\<close>) are left out.  A \<open>uuid\<close> or \<open>varchar\<close> column is a \<open>string\<close>, a nullable
  column an \<open>option\<close>, a \<open>timestamp\<close> a number of milliseconds.  The price of a trip and the
  value of a promotion are the real numbers that the client gets from \<open>parseFloat\<close>; the
  arithmetic of the client on JavaScript doubles is idealised as exact arithmetic on reals.
\<close>

type_synonym uuid = string
type_synonym timestamp = int
type_synonym money = real

text \<open>
  The amounts of a booking are columns \<open>decimal(10, 2)\<close>, and a request gives them as
  strings, which the schema of the route accepts whatever they contain.  \<open>decimal_text\<close> is
  what the database reads from such a string: a finite number, the special value \<open>NaN\<close>, or
  nothing, when the string is not the text of a number.  A column \<open>numeric(10, 2)\<close> rounds a
  finite number to two decimals, a tie away from zero, and rejects it when the rounded
  number needs more than eight digits before the point; it stores \<open>NaN\<close> as it is.
\<close>

datatype decimal_text = Decimal real | NaN_text | Not_numeric

datatype numeric = Finite real | NaN

definition round_scale2 :: "real \<Rightarrow> real" where
  "round_scale2 x =
     (if x < 0 then - (of_int \<lfloor>- x * 100 + 1 / 2\<rfloor> / 100)
      else of_int \<lfloor>x * 100 + 1 / 2\<rfloor> / 100)"

definition accepts_10_2 :: "decimal_text \<Rightarrow> bool" where
  "accepts_10_2 s =
     (case s of
        Decimal x \<Rightarrow> \<bar>round_scale2 x\<bar> < 10 ^ 8
      | NaN_text \<Rightarrow> True
      | Not_numeric \<Rightarrow> False)"

text \<open>The value stored for a text that the column accepts.\<close>

definition stored_10_2 :: "decimal_text \<Rightarrow> numeric" where
  "stored_10_2 s = (case s of Decimal x \<Rightarrow> Finite (round_scale2 x) | _ \<Rightarrow> NaN)"

text \<open>
  \<open>discountAmount\<close> is nullable and has the default 0: the property of a request may be
  absent, \<open>null\<close> or a string, and the column then holds 0, \<open>NULL\<close> or the number stored
  for the string.
\<close>

datatype 'a optional = Absent | Null | Given 'a

definition stored_discount :: "decimal_text optional \<Rightarrow> numeric option" where
  "stored_discount v =
     (case v of Absent \<Rightarrow> Some (Finite 0) | Null \<Rightarrow> None | Given s \<Rightarrow> Some (stored_10_2 s))"

record route =
  route_id :: uuid
  originCity :: string
  destinationCity :: string
  route_isActive :: "bool option"

record bus =
  bus_id :: uuid
  capacity :: int

record trip =
  trip_id :: uuid
  routeId :: uuid
  busId :: uuid
  departureTime :: timestamp
  price :: money
  trip_status :: "string option"

record promotion =
  promo_id :: uuid
  promoCode :: string
  discountType :: string
  discountValue :: money
  startDate :: timestamp
  endDate :: timestamp
  isActive :: "bool option"
  usageLimit :: "int option"
  createdByAdminId :: uuid

record booking =
  booking_id :: uuid
  bookingReference :: string
  userId :: string
  tripId :: uuid
  totalAmount :: numeric
  discountAmount :: "numeric option"
  finalAmount :: numeric
  promotionId :: "uuid option"
  status :: "string option"
  paymentGatewayId :: "string option"
  paymentMethod :: "string option"

record bookedSeat =
  bookingId :: uuid
  seat_tripId :: uuid
  seatNumber :: string
  passengerName :: "string option"

text \<open>The database: one list of rows per table, in insertion order.\<close>

record db =
  users :: "string list"
  admins :: "uuid list"
  routes :: "route list"
  buses :: "bus list"
  trips :: "trip list"
  promotions :: "promotion list"
  bookings :: "booking list"
  bookedSeats :: "bookedSeat list"

text \<open>
  \<open>InsertBooking\<close>, the result of \<open>insertBookingSchema.parse\<close>: the columns of
  \<open>bookings\<close> without \<open>id\<close> and \<open>createdAt\<close>; a column that is nullable or has a default is
  optional.
\<close>

record insertBooking =
  ib_bookingReference :: string
  ib_userId :: string
  ib_tripId :: uuid
  ib_totalAmount :: decimal_text
  ib_discountAmount :: "decimal_text optional"
  ib_finalAmount :: decimal_text
  ib_promotionId :: "uuid option"
  ib_status :: "string option"
  ib_paymentGatewayId :: "string option"
  ib_paymentMethod :: "string option"

text \<open>
  An element of \<open>selectedSeats\<close> as it arrives at run time.  The route handler passes
  \<open>req.body.selectedSeats\<close> on without validating it, so a property may be missing.
\<close>

record selectedSeat =
  sel_seatNumber :: "string option"
  sel_passengerName :: "string option"

datatype js_error = TypeError | DatabaseError | ZodError | Error string

section \<open>Strings and dates of the booking reference\<close>

text \<open>\<open>String(n)\<close> for an integer \<open>n\<close>: its decimal digits, with a minus sign below zero.\<close>

definition digit_char :: "nat \<Rightarrow> char" where
  "digit_char n = char_of (48 + n)"

function string_of_nat :: "nat \<Rightarrow> string" where
  "string_of_nat n =
     (if n < 10 then [digit_char n] else string_of_nat (n div 10) @ [digit_char (n mod 10)])"
  by pat_completeness auto
termination
  by (relation "measure (\<lambda>n. n)") auto

definition String :: "int \<Rightarrow> string" where
  "String n = (if n < 0 then CHR ''-'' # string_of_nat (nat (- n)) else string_of_nat (nat n))"

definition padStart :: "nat \<Rightarrow> char \<Rightarrow> string \<Rightarrow> string" where
  "padStart n c s = replicate (n - length s) c @ s"

definition toUpperCase_char :: "char \<Rightarrow> char" where
  "toUpperCase_char c =
     (if 97 \<le> (of_char c :: nat) \<and> (of_char c :: nat) \<le> 122
      then char_of ((of_char c :: nat) - 32) else c)"

definition toUpperCase :: "string \<Rightarrow> string" where
  "toUpperCase s = map toUpperCase_char s"

definition slice :: "nat \<Rightarrow> nat \<Rightarrow> string \<Rightarrow> string" where
  "slice i j s = drop i (take j s)"

text \<open>What \<open>new Date()\<close> yields: \<open>getFullYear()\<close>, \<open>getMonth()\<close> (from 0) and \<open>getDate()\<close>.\<close>

record js_date =
  getFullYear :: int
  getMonth :: int
  getDate :: int

text \<open>
  What \<open>createBooking\<close> takes from its environment: the three readings of the clock that the
  template string makes, the value of \<open>randomUUID()\<close>, and the id that the database default
  \<open>gen_random_uuid()\<close> gives the new row.
\<close>

record env =
  date1 :: js_date
  date2 :: js_date
  date3 :: js_date
  randomUUID :: string
  newBookingId :: uuid

definition make_bookingReference :: "env \<Rightarrow> string" where
  "make_bookingReference e =
     ''HRM-'' @ String (getFullYear (date1 e))
       @ padStart 2 (CHR ''0'') (String (getMonth (date2 e) + 1))
       @ padStart 2 (CHR ''0'') (String (getDate (date3 e)))
       @ ''-'' @ toUpperCase (slice 0 6 (randomUUID e))"

section \<open>DatabaseStorage.createBooking\<close>

text \<open>
  The constraints that the schema puts on a row of \<open>bookings\<close>: the three amounts must fit
  their columns \<open>decimal(10, 2)\<close>, and there are the
  primary key \<open>id\<close>, the unique \<open>bookingReference\<close>, and the foreign keys to \<open>users\<close>,
  \<open>trips\<close> and \<open>promotions\<close>.
\<close>

definition amounts_ok :: "insertBooking \<Rightarrow> bool" where
  "amounts_ok bookingData =
     (accepts_10_2 (ib_totalAmount bookingData) \<and>
      (case ib_discountAmount bookingData of Given x \<Rightarrow> accepts_10_2 x | _ \<Rightarrow> True) \<and>
      accepts_10_2 (ib_finalAmount bookingData))"

definition bookings_insert_ok :: "db \<Rightarrow> booking \<Rightarrow> bool" where
  "bookings_insert_ok d b =
     (booking_id b \<notin> set (map booking_id (bookings d)) \<and>
      bookingReference b \<notin> set (map bookingReference (bookings d)) \<and>
      userId b \<in> set (users d) \<and>
      tripId b \<in> set (map trip_id (trips d)) \<and>
      (case promotionId b of None \<Rightarrow> True
       | Some p \<Rightarrow> p \<in> set (map promo_id (promotions d))))"

definition new_booking :: "env \<Rightarrow> insertBooking \<Rightarrow> booking" where
  "new_booking e bookingData =
     \<lparr> booking_id = newBookingId e,
       bookingReference = make_bookingReference e,
       userId = ib_userId bookingData,
       tripId = ib_tripId bookingData,
       totalAmount = stored_10_2 (ib_totalAmount bookingData),
       discountAmount = stored_discount (ib_discountAmount bookingData),
       finalAmount = stored_10_2 (ib_finalAmount bookingData),
       promotionId = ib_promotionId bookingData,
       status = Some ''confirmed'',
       paymentGatewayId = ib_paymentGatewayId bookingData,
       paymentMethod = ib_paymentMethod bookingData \<rparr>"

definition seat_row :: "booking \<Rightarrow> insertBooking \<Rightarrow> selectedSeat \<Rightarrow> bookedSeat" where
  "seat_row b bookingData seat =
     \<lparr> bookingId = booking_id b,
       seat_tripId = ib_tripId bookingData,
       seatNumber = (case sel_seatNumber seat of None \<Rightarrow> [] | Some n \<Rightarrow> n),
       passengerName = sel_passengerName seat \<rparr>"

text \<open>
  The two inserts run one after the other, outside any transaction.  The first fails on an
  amount that does not fit its column or on a constraint of \<open>bookings\<close>, and leaves the
  database as it was.  Then \<open>selectedSeats.length\<close>
  throws a \<open>TypeError\<close> when \<open>selectedSeats\<close> is \<open>undefined\<close>, and the second insert fails
  as a whole when a row has no \<open>seatNumber\<close> (the column is \<open>NOT NULL\<close>); in both cases the
  row of \<open>bookings\<close> is already stored.
\<close>

definition createBooking ::
  "env \<Rightarrow> insertBooking \<Rightarrow> selectedSeat list option \<Rightarrow> db \<Rightarrow> (js_error + booking) \<times> db" where
  "createBooking e bookingData selectedSeats d =
     (let b = new_booking e bookingData in
      if \<not> (amounts_ok bookingData \<and> bookings_insert_ok d b) then (Inl DatabaseError, d)
      else
        (let d1 = d\<lparr>bookings := bookings d @ [b]\<rparr> in
         case selectedSeats of
           None \<Rightarrow> (Inl TypeError, d1)
         | Some seats \<Rightarrow>
             if length seats > 0 then
               (if list_all (\<lambda>s. sel_seatNumber s \<noteq> None) seats
                then (Inr b, d1\<lparr>bookedSeats := bookedSeats d1 @ map (seat_row b bookingData) seats\<rparr>)
                else (Inl DatabaseError, d1))
             else (Inr b, d1)))"

section \<open>Reading bookings and seats\<close>

definition getTripSeats :: "uuid \<Rightarrow> db \<Rightarrow> bookedSeat list" where
  "getTripSeats tid d = filter (\<lambda>s. seat_tripId s = tid) (bookedSeats d)"

text \<open>
  The \<open>WHERE\<close> clause that \<open>getBookingById\<close> and \<open>confirmBookingPayment\<close> share:
  \<open>and(eq(bookings.id, bookingId), eq(bookings.userId, userId))\<close>.
\<close>

definition owned_by :: "uuid \<Rightarrow> string \<Rightarrow> booking \<Rightarrow> bool" where
  "owned_by bid uid b = (booking_id b = bid \<and> userId b = uid)"

text \<open>The joined value that \<open>getBookingById\<close> returns.\<close>

record booking_details =
  bd_booking :: booking
  bd_trip :: trip
  bd_route :: route
  bd_bus :: bus
  bd_bookedSeats :: "bookedSeat list"

definition getBookingById :: "uuid \<Rightarrow> string \<Rightarrow> db \<Rightarrow> booking_details option" where
  "getBookingById bid uid d =
     (case [(b, t, r, v).
              b \<leftarrow> bookings d, t \<leftarrow> trips d, tripId b = trip_id t,
              r \<leftarrow> routes d, routeId t = route_id r,
              v \<leftarrow> buses d, busId t = bus_id v,
              owned_by bid uid b] of
        [] \<Rightarrow> None
      | (b, t, r, v) # _ \<Rightarrow>
          Some \<lparr> bd_booking = b, bd_trip = t, bd_route = r, bd_bus = v,
                 bd_bookedSeats = filter (\<lambda>s. bookingId s = bid) (bookedSeats d) \<rparr>)"

section \<open>DatabaseStorage.confirmBookingPayment\<close>

text \<open>
  One \<open>UPDATE\<close> of the rows of \<open>bookings\<close> with the given id and owner; its \<open>WHERE\<close>
  clause does not look at the status.  When no row was updated the method throws; otherwise
  it returns what \<open>getBookingById\<close> reads afterwards.
\<close>

definition confirm_row :: "uuid \<Rightarrow> string \<Rightarrow> string \<Rightarrow> booking \<Rightarrow> booking" where
  "confirm_row bid uid pgid b =
     (if owned_by bid uid b
      then b\<lparr>status := Some ''confirmed'', paymentGatewayId := Some pgid,
             paymentMethod := Some ''stripe''\<rparr>
      else b)"

definition confirmBookingPayment ::
  "uuid \<Rightarrow> string \<Rightarrow> string \<Rightarrow> db \<Rightarrow> (js_error + booking_details option) \<times> db" where
  "confirmBookingPayment bid uid pgid d =
     (if filter (owned_by bid uid) (bookings d) = []
      then (Inl (Error ''Booking not found or access denied''), d)
      else
        (let d1 = d\<lparr>bookings := map (confirm_row bid uid pgid) (bookings d)\<rparr>
         in (Inr (getBookingById bid uid d1), d1)))"

section \<open>DatabaseStorage.validatePromoCode\<close>

text \<open>
  The first promotion with the given code that is active and whose window contains the
  current time, or \<open>null\<close>.  The time is the reading of \<open>new Date()\<close>.
\<close>

definition promo_matches :: "timestamp \<Rightarrow> string \<Rightarrow> promotion \<Rightarrow> bool" where
  "promo_matches now code p =
     (promoCode p = code \<and> isActive p = Some True \<and> startDate p \<le> now \<and> endDate p \<ge> now)"

definition validatePromoCode :: "timestamp \<Rightarrow> string \<Rightarrow> db \<Rightarrow> promotion option" where
  "validatePromoCode now code d =
     (case filter (promo_matches now code) (promotions d) of
        [] \<Rightarrow> None
      | p # _ \<Rightarrow> Some p)"

section \<open>DatabaseStorage.searchTrips\<close>

record trip_summary =
  ts_trip :: trip
  ts_route :: route
  ts_bus :: bus
  availableSeats :: int

text \<open>
  \<open>endDate.setDate(endDate.getDate() + 1)\<close> moves the date one calendar day ahead in the
  server's time zone; that step is the parameter \<open>nextDay\<close>.
\<close>

definition searchTrips ::
  "(timestamp \<Rightarrow> timestamp) \<Rightarrow> string \<Rightarrow> string \<Rightarrow> timestamp \<Rightarrow> db \<Rightarrow> trip_summary list" where
  "searchTrips nextDay origin destination date d =
     (let startDate = date; endDate = nextDay date;
          tripsWithDetails =
            [(t, r, v).
               t \<leftarrow> trips d, r \<leftarrow> routes d, routeId t = route_id r,
               v \<leftarrow> buses d, busId t = bus_id v,
               originCity r = origin \<and> destinationCity r = destination \<and>
               departureTime t \<ge> startDate \<and> departureTime t \<le> endDate \<and>
               trip_status t = Some ''scheduled'']
      in map (\<lambda>(t, r, v).
                let bookedCount = int (length (filter (\<lambda>s. seat_tripId s = trip_id t) (bookedSeats d)))
                in \<lparr> ts_trip = t, ts_route = r, ts_bus = v,
                     availableSeats = capacity v - bookedCount \<rparr>)
             tripsWithDetails)"

section \<open>The other writing operations of IStorage\<close>

text \<open>
  Each inserts one row when the constraints of its table allow it and otherwise leaves the
  database as it was.  \<open>upsertUser\<close> updates the row on a conflict of the id; only the id of a
  user is modelled.
\<close>

definition upsertUser :: "string \<Rightarrow> db \<Rightarrow> db" where
  "upsertUser uid d = (if uid \<in> set (users d) then d else d\<lparr>users := users d @ [uid]\<rparr>)"

definition createRoute :: "route \<Rightarrow> db \<Rightarrow> db" where
  "createRoute r d =
     (if route_id r \<in> set (map route_id (routes d)) then d else d\<lparr>routes := routes d @ [r]\<rparr>)"

definition createBus :: "bus \<Rightarrow> db \<Rightarrow> db" where
  "createBus v d =
     (if bus_id v \<in> set (map bus_id (buses d)) then d else d\<lparr>buses := buses d @ [v]\<rparr>)"

definition createTrip :: "trip \<Rightarrow> db \<Rightarrow> db" where
  "createTrip t d =
     (if trip_id t \<notin> set (map trip_id (trips d)) \<and> routeId t \<in> set (map route_id (routes d))
         \<and> busId t \<in> set (map bus_id (buses d))
      then d\<lparr>trips := trips d @ [t]\<rparr> else d)"

definition createPromotion :: "promotion \<Rightarrow> db \<Rightarrow> db" where
  "createPromotion p d =
     (if promo_id p \<notin> set (map promo_id (promotions d))
         \<and> promoCode p \<notin> set (map promoCode (promotions d))
         \<and> createdByAdminId p \<in> set (admins d)
      then d\<lparr>promotions := promotions d @ [p]\<rparr> else d)"

section \<open>Sequences of storage operations\<close>

text \<open>
  One constructor per method of \<open>IStorage\<close>.  The reading methods carry no arguments: they
  leave the database unchanged whatever they are asked.
\<close>

datatype op =
    GetUser | UpsertUser string
  | GetRoutes | CreateRoute route
  | GetBuses | CreateBus bus
  | SearchTrips | GetTripSeats | CreateTrip trip
  | GetUserBookings
  | CreateBooking env insertBooking "selectedSeat list option"
  | GetBookingById | GetAllBookings
  | ConfirmBookingPayment uuid string string
  | ValidatePromoCode | CreatePromotion promotion
  | GetSocialLinks | GetAdminStats

fun exec :: "op \<Rightarrow> db \<Rightarrow> db" where
  "exec (UpsertUser u) d = upsertUser u d"
| "exec (CreateRoute r) d = createRoute r d"
| "exec (CreateBus v) d = createBus v d"
| "exec (CreateTrip t) d = createTrip t d"
| "exec (CreateBooking e bookingData selectedSeats) d = snd (createBooking e bookingData selectedSeats d)"
| "exec (ConfirmBookingPayment bid uid pgid) d = snd (confirmBookingPayment bid uid pgid d)"
| "exec (CreatePromotion p) d = createPromotion p d"
| "exec _ d = d"

definition run :: "op list \<Rightarrow> db \<Rightarrow> db" where
  "run ops d = fold exec ops d"

section \<open>Route handlers (server/routes.ts)\<close>

datatype 'a response = Json 'a | Status nat string

text \<open>
  The JSON body of \<open>POST /api/bookings\<close>; every property may be absent.  The properties
  are strings (the schema rejects an amount given as a JSON number like a missing one).
\<close>

record booking_body =
  body_bookingReference :: "string option"
  body_tripId :: "uuid option"
  body_totalAmount :: "decimal_text option"
  body_discountAmount :: "decimal_text optional"
  body_finalAmount :: "decimal_text option"
  body_promotionId :: "uuid option"
  body_status :: "string option"
  body_paymentGatewayId :: "string option"
  body_paymentMethod :: "string option"
  body_selectedSeats :: "selectedSeat list option"

text \<open>
  \<open>insertBookingSchema.parse({...req.body, userId})\<close>.  The schema is derived from the table:
  a column that is \<open>NOT NULL\<close> and has no default is required, and a body without it is
  rejected with a \<open>ZodError\<close>.  Only the presence of the required properties is modelled.
\<close>

definition insertBookingSchema_parse :: "string \<Rightarrow> booking_body \<Rightarrow> js_error + insertBooking" where
  "insertBookingSchema_parse uid body =
     (case (body_bookingReference body, body_tripId body, body_totalAmount body,
            body_finalAmount body) of
        (Some r, Some t, Some total_amount, Some final_amount) \<Rightarrow>
          Inr \<lparr> ib_bookingReference = r, ib_userId = uid, ib_tripId = t,
                ib_totalAmount = total_amount, ib_discountAmount = body_discountAmount body,
                ib_finalAmount = final_amount, ib_promotionId = body_promotionId body,
                ib_status = body_status body,
                ib_paymentGatewayId = body_paymentGatewayId body,
                ib_paymentMethod = body_paymentMethod body \<rparr>
      | _ \<Rightarrow> Inl ZodError)"

definition post_api_bookings ::
  "string \<Rightarrow> booking_body \<Rightarrow> env \<Rightarrow> db \<Rightarrow> booking response \<times> db" where
  "post_api_bookings uid body e d =
     (case insertBookingSchema_parse uid body of
        Inl _ \<Rightarrow> (Status 400 ''Invalid booking data'', d)
      | Inr bookingData \<Rightarrow>
          (case createBooking e bookingData (body_selectedSeats body) d of
             (Inr b, d') \<Rightarrow> (Json b, d')
           | (Inl _, d') \<Rightarrow> (Status 500 ''Failed to create booking'', d')))"

text \<open>\<open>POST /api/promotions/validate\<close>; \<open>!promoCode\<close> holds for a missing and for an empty code.\<close>

definition post_api_promotions_validate ::
  "timestamp \<Rightarrow> string option \<Rightarrow> db \<Rightarrow> promotion response" where
  "post_api_promotions_validate now code_opt d =
     (case code_opt of
        None \<Rightarrow> Status 400 ''Promo code is required''
      | Some code \<Rightarrow>
          if code = [] then Status 400 ''Promo code is required''
          else (case validatePromoCode now code d of
                  None \<Rightarrow> Status 404 ''Invalid promo code''
                | Some promotion \<Rightarrow> Json promotion))"

section \<open>The seat selection page (client, SeatSelection)\<close>







section \<open>Properties stated by the specification\<close>

text \<open>
  A seat of a trip is committed to a booking when a row of \<open>booked_seats\<close> binds it to a
  booking whose status is \<open>pending\<close> or \<open>confirmed\<close>.
\<close>

definition is_active :: "booking \<Rightarrow> bool" where
  "is_active b = (status b = Some ''pending'' \<or> status b = Some ''confirmed'')"

definition committed_to :: "db \<Rightarrow> uuid \<Rightarrow> string \<Rightarrow> uuid list" where
  "committed_to d tid seat =
     remdups
       [booking_id b.
          b \<leftarrow> bookings d, is_active b,
          s \<leftarrow> bookedSeats d,
          bookingId s = booking_id b \<and> seat_tripId s = tid \<and> seatNumber s = seat]"

definition no_double_booking :: "db \<Rightarrow> bool" where
  "no_double_booking d =
     list_all (\<lambda>s. length (committed_to d (seat_tripId s) (seatNumber s)) \<le> 1) (bookedSeats d)"









section \<open>A sample database and sample requests\<close>

definition route1 :: route where
  "route1 = \<lparr> route_id = ''r1'', originCity = ''riyadh'', destinationCity = ''jeddah'',
              route_isActive = Some True \<rparr>"

definition bus1 :: bus where
  "bus1 = \<lparr> bus_id = ''v1'', capacity = 1 \<rparr>"

definition trip1 :: trip where
  "trip1 = \<lparr> trip_id = ''t1'', routeId = ''r1'', busId = ''v1'', departureTime = 500,
             price = 100, trip_status = Some ''scheduled'' \<rparr>"

definition promo_save20 :: promotion where
  "promo_save20 = \<lparr> promo_id = ''p1'', promoCode = ''SAVE20'', discountType = ''percentage'',
                    discountValue = 20, startDate = 0, endDate = 1000, isActive = Some True,
                    usageLimit = None, createdByAdminId = ''a1'' \<rparr>"

definition promo_old :: promotion where
  "promo_old = \<lparr> promo_id = ''p2'', promoCode = ''OLD'', discountType = ''fixed_amount'',
                 discountValue = 5, startDate = 0, endDate = 50, isActive = Some True,
                 usageLimit = None, createdByAdminId = ''a1'' \<rparr>"

definition promo_negative :: promotion where
  "promo_negative = \<lparr> promo_id = ''p3'', promoCode = ''MINUS'', discountType = ''percentage'',
                      discountValue = - 50, startDate = 0, endDate = 1000, isActive = Some True,
                      usageLimit = None, createdByAdminId = ''a1'' \<rparr>"

definition db0 :: db where
  "db0 = \<lparr> users = [''u1'', ''u2''], admins = [''a1''], routes = [route1], buses = [bus1],
           trips = [trip1], promotions = [promo_save20, promo_old, promo_negative],
           bookings = [], bookedSeats = [] \<rparr>"

definition today :: js_date where
  "today = \<lparr> getFullYear = 2025, getMonth = 7, getDate = 3 \<rparr>"

definition env1 :: env where
  "env1 = \<lparr> date1 = today, date2 = today, date3 = today,
            randomUUID = ''3f2a9c1e-0b7d-4e5a-9c3d-1a2b3c4d5e6f'', newBookingId = ''b1'' \<rparr>"

definition env2 :: env where
  "env2 = \<lparr> date1 = today, date2 = today, date3 = today,
            randomUUID = ''7d01be44-5c1a-4f0e-8a77-0f9e8d7c6b5a'', newBookingId = ''b2'' \<rparr>"

definition seat_A1 :: selectedSeat where
  "seat_A1 = \<lparr> sel_seatNumber = Some ''A1'', sel_passengerName = Some ''Passenger'' \<rparr>"

definition seat_A2 :: selectedSeat where
  "seat_A2 = \<lparr> sel_seatNumber = Some ''A2'', sel_passengerName = Some ''Passenger'' \<rparr>"

definition data_u1 :: insertBooking where
  "data_u1 = \<lparr> ib_bookingReference = ''x'', ib_userId = ''u1'', ib_tripId = ''t1'',
               ib_totalAmount = Decimal 110, ib_discountAmount = Given (Decimal 0),
               ib_finalAmount = Decimal 110,
               ib_promotionId = None, ib_status = None, ib_paymentGatewayId = None,
               ib_paymentMethod = None \<rparr>"

definition data_u2 :: insertBooking where
  "data_u2 = data_u1\<lparr> ib_userId := ''u2'' \<rparr>"

definition body_u1 :: booking_body where
  "body_u1 = \<lparr> body_bookingReference = Some ''x'', body_tripId = Some ''t1'',
               body_totalAmount = Some (Decimal 110), body_discountAmount = Given (Decimal 0),
               body_finalAmount = Some (Decimal 110), body_promotionId = None, body_status = None,
               body_paymentGatewayId = None, body_paymentMethod = None,
               body_selectedSeats = Some [seat_A1] \<rparr>"






text \<open>A request whose total has three decimals, and one whose total is too large.\<close>

definition data_thirds :: insertBooking where
  "data_thirds = data_u1\<lparr> ib_totalAmount := Decimal 33.335 \<rparr>"

definition data_large :: insertBooking where
  "data_large = data_u1\<lparr> ib_totalAmount := Decimal 100000000 \<rparr>"

definition db1 :: db where
  "db1 = db0\<lparr> bookings := [new_booking env1 data_u1],
              bookedSeats := [\<lparr> bookingId = ''b1'', seat_tripId = ''t1'', seatNumber = ''A1'',
                               passengerName = Some ''Passenger'' \<rparr>] \<rparr>"

definition db2 :: db where
  "db2 = run [CreateBooking env1 data_u1 (Some [seat_A1]),
              CreateBooking env2 data_u2 (Some [seat_A1])] db0"

definition db3 :: db where
  "db3 = db1\<lparr> bookings := [new_booking env1 data_u1, new_booking env2 data_u2],
           bookedSeats := [\<lparr> bookingId = ''b1'', seat_tripId = ''t1'', seatNumber = ''A1'',
                               passengerName = Some ''Passenger'' \<rparr>,
                           \<lparr> bookingId = ''b2'', seat_tripId = ''t1'', seatNumber = ''A1'',
                               passengerName = Some ''Passenger'' \<rparr>] \<rparr>"

section \<open>Predicates on operations and on the stored references\<close>

fun is_createBooking :: "op \<Rightarrow> bool" where
  "is_createBooking (CreateBooking e bookingData selectedSeats) = True"
| "is_createBooking _ = False"




section \<open>Evaluation on the sample database\<close>

lemma ref_env1: "make_bookingReference env1 = ''HRM-20250803-3F2A9C''"
  by code_simp

lemma ref_env2: "make_bookingReference env2 = ''HRM-20250803-7D01BE''"
  by code_simp

lemma new_booking_env1:
  "new_booking env1 data_u1 =
     \<lparr> booking_id = ''b1'', bookingReference = ''HRM-20250803-3F2A9C'', userId = ''u1'',
       tripId = ''t1'', totalAmount = Finite 110, discountAmount = Some (Finite 0),
       finalAmount = Finite 110,
       promotionId = None, status = Some ''confirmed'', paymentGatewayId = None,
       paymentMethod = None \<rparr>"
  by (simp add: new_booking_def ref_env1)
     (simp add: env1_def data_u1_def stored_10_2_def stored_discount_def round_scale2_def)

lemma new_booking_env2:
  "new_booking env2 data_u2 =
     \<lparr> booking_id = ''b2'', bookingReference = ''HRM-20250803-7D01BE'', userId = ''u2'',
       tripId = ''t1'', totalAmount = Finite 110, discountAmount = Some (Finite 0),
       finalAmount = Finite 110,
       promotionId = None, status = Some ''confirmed'', paymentGatewayId = None,
       paymentMethod = None \<rparr>"
  by (simp add: new_booking_def ref_env2)
     (simp add: env2_def data_u2_def data_u1_def stored_10_2_def stored_discount_def round_scale2_def)

lemma amounts_ok_u1: "amounts_ok data_u1"
  by (simp add: amounts_ok_def accepts_10_2_def round_scale2_def data_u1_def)

lemma amounts_ok_u2: "amounts_ok data_u2"
  by (simp add: amounts_ok_def accepts_10_2_def round_scale2_def data_u2_def data_u1_def)

lemma createBooking_db0:
  "createBooking env1 data_u1 (Some [seat_A1]) db0 = (Inr (new_booking env1 data_u1), db1)"
  unfolding createBooking_def Let_def db1_def
  by (simp add: new_booking_env1 bookings_insert_ok_def seat_row_def amounts_ok_u1)
     (simp add: db0_def seat_A1_def data_u1_def trip1_def)

lemma createBooking_db1:
  "createBooking env2 data_u2 (Some [seat_A1]) db1 =
     (Inr (new_booking env2 data_u2),
      db1\<lparr> bookings := [new_booking env1 data_u1, new_booking env2 data_u2],
           bookedSeats := [\<lparr> bookingId = ''b1'', seat_tripId = ''t1'', seatNumber = ''A1'',
                               passengerName = Some ''Passenger'' \<rparr>,
                           \<lparr> bookingId = ''b2'', seat_tripId = ''t1'', seatNumber = ''A1'',
                               passengerName = Some ''Passenger'' \<rparr>] \<rparr>)"
  unfolding createBooking_def Let_def
  by (simp add: new_booking_env1 new_booking_env2 bookings_insert_ok_def seat_row_def db1_def
        amounts_ok_u2)
     (simp add: db0_def seat_A1_def data_u1_def data_u2_def trip1_def)

lemma db2_eq: "db2 = db3"
  by (simp add: db2_def run_def createBooking_db0 createBooking_db1 db3_def)




lemma parse_body_u1: "insertBookingSchema_parse ''u1'' body_u1 = Inr data_u1"
  by (simp add: insertBookingSchema_parse_def body_u1_def data_u1_def)

lemma post_body_u1:
  "post_api_bookings ''u1'' body_u1 env1 db0 = (Json (new_booking env1 data_u1), db1)"
  by (simp add: post_api_bookings_def parse_body_u1) (simp add: body_u1_def createBooking_db0)

lemma new_booking_thirds:
  "new_booking env1 data_thirds = (new_booking env1 data_u1)\<lparr> totalAmount := Finite 33.34 \<rparr>"
  by (simp add: new_booking_def data_thirds_def stored_10_2_def stored_discount_def round_scale2_def)

lemma amounts_ok_thirds: "amounts_ok data_thirds"
  by (simp add: amounts_ok_def accepts_10_2_def round_scale2_def data_thirds_def data_u1_def)

lemma createBooking_thirds:
  "fst (createBooking env1 data_thirds (Some [seat_A1]) db0) = Inr (new_booking env1 data_thirds)"
  unfolding createBooking_def Let_def
  by (simp add: new_booking_thirds new_booking_env1 bookings_insert_ok_def amounts_ok_thirds)
     (simp add: db0_def seat_A1_def trip1_def)






section \<open>What createBooking stores\<close>

declare string_of_nat.simps [simp del]


lemma createBooking_Inr:
  assumes "createBooking e bookingData selectedSeats d = (Inr b, d')"
  shows "b = new_booking e bookingData" "bookings_insert_ok d b" "bookings d' = bookings d @ [b]"
  using assms by (auto simp: createBooking_def Let_def split: option.splits if_splits)

lemma createBooking_status:
  assumes "createBooking e bookingData selectedSeats d = (Inr b, d')"
  shows "status b = Some ''confirmed''"
  using createBooking_Inr(1) [OF assms] by (simp add: new_booking_def)

lemma createBooking_bookedSeats:
  "prefix (bookedSeats d) (bookedSeats (snd (createBooking e bookingData selectedSeats d)))"
  by (simp add: createBooking_def Let_def split: option.splits)

lemma confirmBookingPayment_bookedSeats:
  "bookedSeats (snd (confirmBookingPayment bid uid pgid d)) = bookedSeats d"
  by (simp add: confirmBookingPayment_def Let_def)

lemma exec_bookedSeats: "prefix (bookedSeats d) (bookedSeats (exec op d))"
  by (cases op)
     (simp_all add: upsertUser_def createRoute_def createBus_def createTrip_def
        createPromotion_def createBooking_bookedSeats confirmBookingPayment_bookedSeats)

lemma exec_bookedSeats_other:
  "\<not> is_createBooking op \<Longrightarrow> bookedSeats (exec op d) = bookedSeats d"
  by (cases op)
     (simp_all add: upsertUser_def createRoute_def createBus_def createTrip_def
        createPromotion_def confirmBookingPayment_bookedSeats)

lemma run_bookedSeats: "prefix (bookedSeats d) (bookedSeats (run ops d))"
proof (induction ops arbitrary: d)
  case Nil
  show ?case by (simp add: run_def)
next
  case (Cons op ops)
  have "prefix (bookedSeats d) (bookedSeats (exec op d))"
    by (rule exec_bookedSeats)
  moreover have "prefix (bookedSeats (exec op d)) (bookedSeats (run ops (exec op d)))"
    by (rule Cons.IH)
  ultimately have "prefix (bookedSeats d) (bookedSeats (run ops (exec op d)))"
    by (rule prefix_order.trans)
  then show ?case by (simp add: run_def)
qed

lemma run_bookedSeats_other:
  "bookedSeats (run (filter (\<lambda>op. \<not> is_createBooking op) ops) d) = bookedSeats d"
  by (induction ops arbitrary: d) (simp_all add: run_def exec_bookedSeats_other)

section \<open>The booking reference\<close>
































section \<open>Amounts\<close>

lemma round_scale2_near: "\<bar>round_scale2 x - x\<bar> \<le> 1 / 200"
proof (cases "x < 0")
  case True
  define n where "n = \<lfloor>- x * 100 + 1 / 2\<rfloor>"
  have "of_int n \<le> - x * 100 + 1 / 2" and "- x * 100 + 1 / 2 < of_int n + 1"
    unfolding n_def by linarith+
  moreover from True have "round_scale2 x = - (of_int n / 100)"
    by (simp add: round_scale2_def n_def)
  ultimately show ?thesis
    by linarith
next
  case False
  define n where "n = \<lfloor>x * 100 + 1 / 2\<rfloor>"
  have "of_int n \<le> x * 100 + 1 / 2" and "x * 100 + 1 / 2 < of_int n + 1"
    unfolding n_def by linarith+
  moreover from False have "round_scale2 x = of_int n / 100"
    by (simp add: round_scale2_def n_def)
  ultimately show ?thesis
    by linarith
qed

lemma round_scale2_hundredths: "\<exists>n::int. round_scale2 x = of_int n / 100"
proof (cases "x < 0")
  case True
  then have "round_scale2 x = of_int (- \<lfloor>- x * 100 + 1 / 2\<rfloor>) / 100"
    by (simp add: round_scale2_def)
  then show ?thesis ..
next
  case False
  then have "round_scale2 x = of_int \<lfloor>x * 100 + 1 / 2\<rfloor> / 100"
    by (simp add: round_scale2_def)
  then show ?thesis ..
qed

lemma createBooking_amounts:
  assumes "createBooking e bookingData selectedSeats d = (Inr b, d')"
  shows "amounts_ok bookingData"
  using assms by (auto simp: createBooking_def Let_def split: option.splits if_splits)

lemma createBooking_rejects:
  assumes "\<not> amounts_ok bookingData"
  shows "createBooking e bookingData selectedSeats d = (Inl DatabaseError, d)"
  using assms by (simp add: createBooking_def Let_def)

lemma post_api_bookings_Json:
  assumes "post_api_bookings uid body e d = (Json b, d')"
  shows "\<exists>bookingData. insertBookingSchema_parse uid body = Inr bookingData \<and>
           createBooking e bookingData (body_selectedSeats body) d = (Inr b, d')"
  using assms
  by (auto simp: post_api_bookings_def split: sum.splits prod.splits)

lemma parse_amounts:
  assumes "insertBookingSchema_parse uid body = Inr bookingData"
  shows "body_totalAmount body = Some (ib_totalAmount bookingData)"
    and "body_finalAmount body = Some (ib_finalAmount bookingData)"
    and "body_discountAmount body = ib_discountAmount bookingData"
  using assms
  by (auto simp: insertBookingSchema_parse_def split: option.splits)

section \<open>Rows touched by confirmBookingPayment\<close>

lemma confirm_row_id: "booking_id (confirm_row bid uid pgid b) = booking_id b"
  by (simp add: confirm_row_def)

lemma confirm_row_map:
  "map booking_id (map (confirm_row bid uid pgid) bs) = map booking_id bs"
  "list_all (\<lambda>b. status b = Some ''confirmed'' \<and> paymentGatewayId b = Some pgid)
     (filter (owned_by bid uid) (map (confirm_row bid uid pgid) bs))"
  "filter (\<lambda>b. \<not> owned_by bid uid b) (map (confirm_row bid uid pgid) bs) =
     filter (\<lambda>b. \<not> owned_by bid uid b) bs"
  "list_ex (owned_by bid uid) (map (confirm_row bid uid pgid) bs) = list_ex (owned_by bid uid) bs"
  by (induction bs) (auto simp: confirm_row_def owned_by_def)

section \<open>The claims\<close>

text \<open>
  C1 (no double booking).  The claim: in every state that the public operations reach, each
  seat of a trip is committed to at most one booking whose status is \<open>pending\<close> or
  \<open>confirmed\<close>.  \<open>createBooking\<close> checks no seat: on the sample database two calls for seat
  A1 of trip t1, by two users, both succeed, and afterwards the seat is committed to the two
  confirmed bookings b1 and b2.
\<close>

theorem double_booking_reached:
  "committed_to db2 ''t1'' ''A1'' = [''b1'', ''b2''] \<and> \<not> no_double_booking db2"
  unfolding db2_def run_def
  by (simp add: createBooking_db0 createBooking_db1)
     (simp add: committed_to_def no_double_booking_def is_active_def db1_def new_booking_env1
        new_booking_env2)

text \<open>
  C2 (atomicity of \<open>createBooking\<close>).  The claim: a call that returns an error leaves no booking
  and no seat behind.  A request without \<open>selectedSeats\<close> is answered with status 500,
  "Failed to create booking", and yet the row of \<open>bookings\<close> that the first insert wrote is
  stored: the database had no booking before the call and has one after it.
\<close>

theorem failed_createBooking_keeps_booking:
  "post_api_bookings ''u1'' (body_u1\<lparr>body_selectedSeats := None\<rparr>) env1 db0 =
     (Status 500 ''Failed to create booking'', db0\<lparr>bookings := [new_booking env1 data_u1]\<rparr>)
   \<and> bookings db0 = []
   \<and> bookings (db0\<lparr>bookings := [new_booking env1 data_u1]\<rparr>) = [new_booking env1 data_u1]"
proof -
  have p: "insertBookingSchema_parse ''u1'' (body_u1\<lparr>body_selectedSeats := None\<rparr>) = Inr data_u1"
    by (simp add: insertBookingSchema_parse_def body_u1_def data_u1_def)
  have c: "createBooking env1 data_u1 None db0 =
             (Inl TypeError, db0\<lparr>bookings := [new_booking env1 data_u1]\<rparr>)"
    unfolding createBooking_def Let_def
    by (simp add: new_booking_env1 bookings_insert_ok_def amounts_ok_u1)
       (simp add: db0_def trip1_def)
  show ?thesis
    by (simp add: post_api_bookings_def p c) (simp add: db0_def)
qed

text \<open>
  C3 (status of a new booking).  The claim: the booking that a successful \<open>createBooking\<close>
  stores and returns has status \<open>pending\<close>.  The method sets the status to \<open>confirmed\<close>: the
  booking returned on the sample database is the stored one, and it is confirmed.
\<close>

theorem createBooking_returns_confirmed:
  "createBooking env1 data_u1 (Some [seat_A1]) db0 = (Inr (new_booking env1 data_u1), db1) \<and>
   bookings db1 = [new_booking env1 data_u1] \<and>
   status (new_booking env1 data_u1) = Some ''confirmed''"
  by (simp add: createBooking_db0 new_booking_env1) (simp add: db1_def new_booking_env1)

text \<open>
  C4 (\<open>confirmPayment\<close>).  The claim has three parts: \<open>NotFound\<close> when no booking with that
  id belongs to the owner, \<open>InvalidTransition\<close> when the booking is not \<open>pending\<close>, and on
  success status \<open>confirmed\<close>, the payment reference stored and the seats untouched.  The
  second part fails: the \<open>UPDATE\<close> does not look at the status, and a booking that is
  already confirmed is confirmed again, with the new payment reference.
\<close>

theorem confirmBookingPayment_on_confirmed_succeeds:
  "map status (bookings db1) = [Some ''confirmed''] \<and>
   \<not> isl (fst (confirmBookingPayment ''b1'' ''u1'' ''pi_2'' db1)) \<and>
   map (\<lambda>b. (booking_id b, status b, paymentGatewayId b))
       (bookings (snd (confirmBookingPayment ''b1'' ''u1'' ''pi_2'' db1))) =
     [(''b1'', Some ''confirmed'', Some ''pi_2'')]"
  by (simp add: confirmBookingPayment_def Let_def db1_def new_booking_env1 confirm_row_def owned_by_def)

text \<open>
  C4 as amended.  When a booking with the id belongs to the owner, whatever its status, the
  call succeeds and returns what \<open>getBookingById\<close> reads afterwards; the rows with that id
  and owner are confirmed and carry the payment reference, every other row of \<open>bookings\<close>
  and all of \<open>booked_seats\<close> are unchanged.  Otherwise the call throws "Booking not found or
  access denied" and changes nothing.
\<close>

theorem confirmBookingPayment_behaviour:
  "(if list_ex (owned_by bid uid) (bookings d)
    then fst (confirmBookingPayment bid uid pgid d) =
           Inr (getBookingById bid uid (snd (confirmBookingPayment bid uid pgid d))) \<and>
         map booking_id (bookings (snd (confirmBookingPayment bid uid pgid d))) =
           map booking_id (bookings d) \<and>
         list_all (\<lambda>b. status b = Some ''confirmed'' \<and> paymentGatewayId b = Some pgid)
           (filter (owned_by bid uid) (bookings (snd (confirmBookingPayment bid uid pgid d)))) \<and>
         filter (\<lambda>b. \<not> owned_by bid uid b) (bookings (snd (confirmBookingPayment bid uid pgid d))) =
           filter (\<lambda>b. \<not> owned_by bid uid b) (bookings d) \<and>
         list_ex (owned_by bid uid) (bookings (snd (confirmBookingPayment bid uid pgid d))) \<and>
         bookedSeats (snd (confirmBookingPayment bid uid pgid d)) = bookedSeats d
    else confirmBookingPayment bid uid pgid d =
           (Inl (Error ''Booking not found or access denied''), d))"
proof -
  have e: "(filter (owned_by bid uid) (bookings d) = []) = (\<not> list_ex (owned_by bid uid) (bookings d))"
    by (simp add: filter_empty_conv list_ex_iff)
  show ?thesis
    by (simp add: confirmBookingPayment_def Let_def e confirm_row_map confirm_row_id)
qed

text \<open>
  Witness for C4: on the sample database with the booking b1 of user u1, the owner's call
  succeeds and the call of user u2 is refused.
\<close>

theorem confirmBookingPayment_behaviour_witness:
  "list_ex (owned_by ''b1'' ''u1'') (bookings db1) \<and>
   \<not> list_ex (owned_by ''b1'' ''u2'') (bookings db1) \<and>
   bookedSeats (snd (confirmBookingPayment ''b1'' ''u1'' ''pi_1'' db1)) = bookedSeats db1 \<and>
   list_all (\<lambda>b. status b = Some ''confirmed'' \<and> paymentGatewayId b = Some ''pi_1'')
     (filter (owned_by ''b1'' ''u1'') (bookings (snd (confirmBookingPayment ''b1'' ''u1'' ''pi_1'' db1)))) \<and>
   confirmBookingPayment ''b1'' ''u2'' ''pi_1'' db1 =
     (Inl (Error ''Booking not found or access denied''), db1)"
proof -
  have h1: "list_ex (owned_by ''b1'' ''u1'') (bookings db1)"
    by (simp add: db1_def new_booking_env1 owned_by_def)
  have h2: "\<not> list_ex (owned_by ''b1'' ''u2'') (bookings db1)"
    by (simp add: db1_def new_booking_env1 owned_by_def)
  from confirmBookingPayment_behaviour [of "''b1''" "''u1''" db1 "''pi_1''"] confirmBookingPayment_behaviour [of "''b1''" "''u2''" db1 "''pi_1''"] h1 h2
  show ?thesis
    by simp
qed

text \<open>
  C5 (promotion validation).  The claim: validation succeeds exactly for a known, active
  code inside its window, and otherwise fails with \<open>NotFound\<close>, \<open>Expired\<close> or
  \<open>UsageExceeded\<close> according to the reason.  The code has one failure only: an active
  promotion whose window has ended gets the same \<open>null\<close>, and the same answer 404
  "Invalid promo code", as a code that does not exist.
\<close>

theorem expired_promo_reported_as_invalid:
  "promo_old \<in> set (promotions db0) \<and> promoCode promo_old = ''OLD'' \<and>
   isActive promo_old = Some True \<and> endDate promo_old < 100 \<and>
   validatePromoCode 100 ''OLD'' db0 = None \<and>
   validatePromoCode 100 ''NOPE'' db0 = None \<and>
   post_api_promotions_validate 100 (Some ''OLD'') db0 = Status 404 ''Invalid promo code'' \<and>
   post_api_promotions_validate 100 (Some ''NOPE'') db0 = Status 404 ''Invalid promo code''"
  by (simp add: post_api_promotions_validate_def validatePromoCode_def promo_matches_def db0_def
        promo_old_def promo_save20_def promo_negative_def)

text \<open>
  C5 as amended.  \<open>validatePromoCode\<close> returns a promotion exactly when some promotion has
  the code, is active and has the current time inside its window, and the promotion returned
  is such a one; in every other case it returns \<open>null\<close>, which the route answers with 404
  "Invalid promo code" (400 for an empty code).  The usage limit is not consulted.
\<close>

theorem validatePromoCode_behaviour:
  "(validatePromoCode now code d \<noteq> None) =
     list_ex (\<lambda>p. promoCode p = code \<and> isActive p = Some True \<and> startDate p \<le> now \<and>
                  now \<le> endDate p) (promotions d) \<and>
   (case validatePromoCode now code d of
      None \<Rightarrow>
        post_api_promotions_validate now (Some code) d =
          (if code = [] then Status 400 ''Promo code is required''
           else Status 404 ''Invalid promo code'')
    | Some p \<Rightarrow>
        p \<in> set (promotions d) \<and> promoCode p = code \<and> isActive p = Some True \<and>
        startDate p \<le> now \<and> now \<le> endDate p)"
proof -
  have pm: "promo_matches now code =
      (\<lambda>p. promoCode p = code \<and> isActive p = Some True \<and> startDate p \<le> now \<and> now \<le> endDate p)"
    by (rule ext) (simp add: promo_matches_def)
  show ?thesis
  proof (cases "filter (promo_matches now code) (promotions d)")
    case Nil
    then have "\<not> list_ex (promo_matches now code) (promotions d)"
      by (simp add: filter_empty_conv list_ex_iff)
    with Nil show ?thesis
      unfolding pm by (simp add: validatePromoCode_def post_api_promotions_validate_def pm)
  next
    case (Cons p ps)
    then have "p \<in> set (filter (promo_matches now code) (promotions d))"
      by simp
    then have p: "p \<in> set (promotions d)" "promo_matches now code p"
      by simp_all
    then have "list_ex (promo_matches now code) (promotions d)"
      by (auto simp: list_ex_iff)
    with Cons p show ?thesis
      unfolding pm by (simp add: validatePromoCode_def pm)
  qed
qed

text \<open>Witness for C5: the code SAVE20 of the sample database at time 100.\<close>

theorem validatePromoCode_behaviour_witness:
  "validatePromoCode 100 ''SAVE20'' db0 = Some promo_save20 \<and>
   promo_save20 \<in> set (promotions db0) \<and> startDate promo_save20 \<le> 100 \<and>
   100 \<le> endDate promo_save20"
  using validatePromoCode_behaviour [of 100 "''SAVE20''" db0]
  by (simp add: validatePromoCode_def promo_matches_def db0_def promo_old_def promo_save20_def
        promo_negative_def)

text \<open>
  C6 (total amount).  The claim: the stored \<open>totalAmount\<close> is the list price of the trip
  times the number of seats.  The server computes no amount: a request for one seat on the
  sample trip of price 100 that gives the total 110 creates a booking with the total 110.
\<close>

theorem totalAmount_not_price_times_seats:
  "post_api_bookings ''u1'' body_u1 env1 db0 = (Json (new_booking env1 data_u1), db1) \<and>
   tripId (new_booking env1 data_u1) = trip_id trip1 \<and> trips db0 = [trip1] \<and>
   map seat_tripId (bookedSeats db1) = [''t1''] \<and>
   totalAmount (new_booking env1 data_u1) = Finite 110 \<and>
   price trip1 * real (length (bookedSeats db1)) = 100"
  by (simp add: post_body_u1 new_booking_env1) (simp add: db0_def db1_def trip1_def)

text \<open>
  C6 as amended.  The \<open>totalAmount\<close> of a booking that \<open>createBooking\<close> creates is the
  \<open>totalAmount\<close> of the request as its column \<open>decimal(10, 2)\<close> stores it: for the text of a
  finite number, that number rounded to two decimals, which is a number of hundredths within
  half a hundredth of it and below \<open>10^8\<close> in absolute value.  A request whose total the column
  does not accept creates nothing.  The same holds through the route \<open>POST /api/bookings\<close>.
\<close>

theorem totalAmount_as_submitted:
  "(createBooking e bookingData selectedSeats d = (Inr b, d') \<longrightarrow>
      accepts_10_2 (ib_totalAmount bookingData) \<and>
      totalAmount b = stored_10_2 (ib_totalAmount bookingData) \<and>
      bookings d' = bookings d @ [b]) \<and>
   (createBooking e bookingData selectedSeats d = (Inr b, d') \<and>
    ib_totalAmount bookingData = Decimal x \<longrightarrow>
      totalAmount b = Finite (round_scale2 x) \<and> \<bar>round_scale2 x\<bar> < 10 ^ 8 \<and>
      \<bar>round_scale2 x - x\<bar> \<le> 1 / 200 \<and> (\<exists>n::int. round_scale2 x = of_int n / 100)) \<and>
   (\<not> accepts_10_2 (ib_totalAmount bookingData) \<longrightarrow>
      createBooking e bookingData selectedSeats d = (Inl DatabaseError, d)) \<and>
   (post_api_bookings uid body e d = (Json b, d') \<longrightarrow>
      map_option stored_10_2 (body_totalAmount body) = Some (totalAmount b))"
proof -
  have 1: "accepts_10_2 (ib_totalAmount bookingData) \<and>
      totalAmount b = stored_10_2 (ib_totalAmount bookingData) \<and>
      bookings d' = bookings d @ [b]"
    if c: "createBooking e bookingData selectedSeats d = (Inr b, d')"
  proof -
    from c have "amounts_ok bookingData"
      by (rule createBooking_amounts)
    then have "accepts_10_2 (ib_totalAmount bookingData)"
      by (simp add: amounts_ok_def)
    moreover from c have "b = new_booking e bookingData"
      by (rule createBooking_Inr)
    then have "totalAmount b = stored_10_2 (ib_totalAmount bookingData)"
      by (simp add: new_booking_def)
    moreover from c have "bookings d' = bookings d @ [b]"
      by (rule createBooking_Inr)
    ultimately show ?thesis
      by simp
  qed
  have 2: "totalAmount b = Finite (round_scale2 x) \<and> \<bar>round_scale2 x\<bar> < 10 ^ 8 \<and>
      \<bar>round_scale2 x - x\<bar> \<le> 1 / 200 \<and> (\<exists>n::int. round_scale2 x = of_int n / 100)"
    if c: "createBooking e bookingData selectedSeats d = (Inr b, d')"
      and x: "ib_totalAmount bookingData = Decimal x"
    using 1 [OF c] x round_scale2_near [of x] round_scale2_hundredths [of x]
    by (simp add: accepts_10_2_def stored_10_2_def)
  have 3: "createBooking e bookingData selectedSeats d = (Inl DatabaseError, d)"
    if "\<not> accepts_10_2 (ib_totalAmount bookingData)"
    using that by (intro createBooking_rejects) (simp add: amounts_ok_def)
  have 4: "map_option stored_10_2 (body_totalAmount body) = Some (totalAmount b)"
    if r: "post_api_bookings uid body e d = (Json b, d')"
  proof -
    from post_api_bookings_Json [OF r] obtain bd
      where p: "insertBookingSchema_parse uid body = Inr bd"
        and c: "createBooking e bd (body_selectedSeats body) d = (Inr b, d')"
      by blast
    from c have "b = new_booking e bd"
      by (rule createBooking_Inr)
    then have "totalAmount b = stored_10_2 (ib_totalAmount bd)"
      by (simp add: new_booking_def)
    with parse_amounts(1) [OF p] show ?thesis
      by simp
  qed
  from 1 2 3 4 show ?thesis
    by blast
qed

text \<open>
  Witness for C6: the total 33.335 is stored as 33.34, the total \<open>10^8\<close> is refused, and the
  route stores the total 110 of the sample request.
\<close>

theorem totalAmount_as_submitted_witness:
  "createBooking env1 data_thirds (Some [seat_A1]) db0 =
     (Inr (new_booking env1 data_thirds), snd (createBooking env1 data_thirds (Some [seat_A1]) db0)) \<and>
   ib_totalAmount data_thirds = Decimal 33.335 \<and>
   totalAmount (new_booking env1 data_thirds) = Finite 33.34 \<and>
   \<not> accepts_10_2 (ib_totalAmount data_large) \<and>
   createBooking env1 data_large (Some [seat_A1]) db0 = (Inl DatabaseError, db0) \<and>
   post_api_bookings ''u1'' body_u1 env1 db0 = (Json (new_booking env1 data_u1), db1) \<and>
   map_option stored_10_2 (body_totalAmount body_u1) = Some (totalAmount (new_booking env1 data_u1))"
proof -
  have h1: "createBooking env1 data_thirds (Some [seat_A1]) db0 =
     (Inr (new_booking env1 data_thirds), snd (createBooking env1 data_thirds (Some [seat_A1]) db0))"
    using createBooking_thirds by (simp add: prod_eq_iff)
  have h2: "ib_totalAmount data_thirds = Decimal 33.335"
    by (simp add: data_thirds_def)
  have h3: "\<not> accepts_10_2 (ib_totalAmount data_large)"
    by (simp add: data_large_def accepts_10_2_def round_scale2_def)
  have r: "round_scale2 33.335 = 33.34"
    by (simp add: round_scale2_def)
  from totalAmount_as_submitted [of env1 data_thirds "Some [seat_A1]" db0 "new_booking env1 data_thirds"
      "snd (createBooking env1 data_thirds (Some [seat_A1]) db0)" "33.335"] h1 h2
  have "totalAmount (new_booking env1 data_thirds) = Finite (round_scale2 33.335)"
    by blast
  then have a: "totalAmount (new_booking env1 data_thirds) = Finite 33.34"
    by (simp only: r)
  from totalAmount_as_submitted [where e = env1 and bookingData = data_large and selectedSeats = "Some [seat_A1]"
      and d = db0] h3
  have b: "createBooking env1 data_large (Some [seat_A1]) db0 = (Inl DatabaseError, db0)"
    by blast
  from totalAmount_as_submitted [where uid = "''u1''" and body = body_u1 and e = env1 and d = db0
      and b = "new_booking env1 data_u1" and d' = db1] post_body_u1
  have c: "map_option stored_10_2 (body_totalAmount body_u1) =
      Some (totalAmount (new_booking env1 data_u1))"
    by blast
  from h1 h2 a h3 b post_body_u1 c show ?thesis
    by (intro conjI)
qed





text \<open>
  C8 (available seats).  The claim: \<open>availableSeats\<close> is the capacity minus the number of
  occupied seats and is clamped at 0.  \<open>searchTrips\<close> subtracts the number of rows of
  \<open>booked_seats\<close> and does not clamp: on the sample bus of capacity 1 with two rows booked
  the result is -1.
\<close>

theorem availableSeats_negative:
  "map (\<lambda>x. (trip_id (ts_trip x), capacity (ts_bus x), availableSeats x))
       (searchTrips (\<lambda>t. t + 86400000) ''riyadh'' ''jeddah'' 0 db2) = [(''t1'', 1, - 1)]"
  by (simp add: db2_eq searchTrips_def Let_def db3_def db1_def db0_def trip1_def route1_def bus1_def)

text \<open>
  C8 as amended.  For every trip that \<open>searchTrips\<close> returns, \<open>availableSeats\<close> is the
  capacity of the bus minus the number of rows of \<open>booked_seats\<close> for the trip, the rows that
  \<open>getTripSeats\<close> returns; the value is negative when there are more rows than seats.
\<close>

theorem availableSeats_capacity_minus_rows:
  "map availableSeats (searchTrips nextDay origin destination date d) =
     map (\<lambda>x. capacity (ts_bus x) - int (length (getTripSeats (trip_id (ts_trip x)) d)))
         (searchTrips nextDay origin destination date d)"
  by (simp add: searchTrips_def Let_def getTripSeats_def split_def)

text \<open>Witness for C8: with one row booked on the sample bus of capacity 1 no seat is left.\<close>

theorem availableSeats_capacity_minus_rows_witness:
  "map availableSeats (searchTrips (\<lambda>t. t + 86400000) ''riyadh'' ''jeddah'' 0 db1) = [0]"
  using availableSeats_capacity_minus_rows [of "\<lambda>t. t + 86400000" "''riyadh''" "''jeddah''" 0 db1]
  by (simp add: searchTrips_def Let_def db1_def db0_def trip1_def route1_def bus1_def)



text \<open>
  C10 (monotone seat occupancy).  Every sequence of storage operations only appends to
  \<open>booked_seats\<close>: the rows before the sequence are a prefix of the rows after it, and so
  are the rows that \<open>getTripSeats\<close> returns for any trip.  The operations other than
  \<open>createBooking\<close> leave the table as it is.
\<close>

theorem booked_seats_only_grow:
  "prefix (getTripSeats tid d) (getTripSeats tid (run ops d)) \<and>
   prefix (bookedSeats d) (bookedSeats (run ops d)) \<and>
   bookedSeats (run (filter (\<lambda>op. \<not> is_createBooking op) ops) d) = bookedSeats d"
  by (simp add: getTripSeats_def run_bookedSeats run_bookedSeats_other filter_mono_prefix)

text \<open>Witness for C10: the two bookings on the sample database.\<close>

theorem booked_seats_only_grow_witness:
  "prefix (getTripSeats ''t1'' db0) (getTripSeats ''t1'' db2) \<and>
   prefix (bookedSeats db0) (bookedSeats db2)"
  using booked_seats_only_grow [of "''t1''" db0
      "[CreateBooking env1 data_u1 (Some [seat_A1]), CreateBooking env2 data_u2 (Some [seat_A1])]"]
  by (simp add: db2_def)

end
